theory Spec2Isabelle
  imports Main "HOL-Library.Word"
begin

section \<open>Data model of the file-transfer server\<close>

text \<open>
  The development embeds the HTTP handler of the remote file server: \<open>ServeHTTP\<close>,
  \<open>writeTableFile\<close>, \<open>writeLocal\<close>, \<open>offsetAndLenFromRange\<close>, \<open>readFile\<close>,
  \<open>readChunk\<close> and \<open>readLocalRange\<close>. Go strings are byte strings (\<open>string\<close>),
  \<open>uint64\<close>/\<open>int64\<close> are 64-bit words (the conversion between them keeps the bits),
  status codes are \<open>int\<close>. The per-request logger only produces log lines and is left out.
\<close>

type_synonym byte = "8 word"
type_synonym uint64 = "64 word"
type_synonym int64 = "64 word"

text \<open>\<open>remotesapi.TableFileDetails\<close>: the two fields the upload path reads.\<close>

record TableFileDetails =
  ContentLength :: uint64
  ContentHash :: "byte list"

text \<open>
  Operating-system and registry operations leave an event in the trace of the world, in
  call order, so that "no filesystem access" is a statement about the trace.
\<close>

datatype event =
    EvLookup string
  | EvReadBody
  | EvStat string
  | EvOpen string
  | EvSeek string
  | EvRead string
  | EvClose string
  | EvWriteFile string

datatype io_error = NotExist | OpenFailed | SeekFailed | ReadFailed | WriteFailed | SendFailed

datatype write_fault = WriteRefused | WriteShort nat

text \<open>
  The world outside the handler: the process-wide map \<open>expectedFiles\<close>, the regular files
  of the filesystem by path, and the faults the operating system may answer with
  (an open that fails after a successful stat, a seek that fails, a device that stops
  delivering bytes at some position, a write that is refused or cut short).
\<close>

record world =
  expectedFiles :: "string \<rightharpoonup> TableFileDetails"
  files :: "string \<rightharpoonup> byte list"
  open_fails :: "string \<Rightarrow> bool"
  seek_fails :: "string \<Rightarrow> bool"
  read_limit :: "string \<Rightarrow> nat option"
  write_fault :: "string \<Rightarrow> write_fault option"
  trace :: "event list"

text \<open>
  \<open>http.ResponseWriter\<close>: the status codes passed to \<open>WriteHeader\<close> in call order, the
  body bytes written so far, and how many more bytes the connection accepts before a
  write fails (\<open>None\<close>: no failure).
\<close>

record ResponseWriter =
  headers :: "int list"
  sent :: "byte list"
  send_limit :: "nat option"

text \<open>
  \<open>http.Request\<close>: method, \<open>URL.Path\<close>, the value of \<open>Header.Get("Range")\<close> (empty when
  the header is absent), and what \<open>io.ReadAll(request.Body)\<close> yields: the bytes read and
  whether the read ended in an error (the bytes are then a truncated prefix).
\<close>

record Request =
  Method :: string
  URL_Path :: string
  Header_Range :: string
  Body_data :: "byte list"
  Body_fails :: bool

text \<open>
  Two functions the handler calls are not part of the embedded sources and are taken as
  parameters of the model: \<open>hash.MaybeParse\<close> (only its \<open>ok\<close> result is used) and
  \<open>md5.Sum\<close>.
\<close>

record deps =
  MaybeParse :: "string \<Rightarrow> bool"
  md5_Sum :: "byte list \<Rightarrow> byte list"

abbreviation StatusOK :: int where "StatusOK \<equiv> 200"
abbreviation StatusBadRequest :: int where "StatusBadRequest \<equiv> 400"
abbreviation StatusNotFound :: int where "StatusNotFound \<equiv> 404"
abbreviation StatusMethodNotAllowed :: int where "StatusMethodNotAllowed \<equiv> 405"
abbreviation StatusInternalServerError :: int where "StatusInternalServerError \<equiv> 500"

section \<open>Strings and paths\<close>

text \<open>\<open>strings.TrimLeft(s, "/")\<close>: drops every leading slash.\<close>

definition TrimLeft_slash :: "string \<Rightarrow> string" where
  "TrimLeft_slash s = dropWhile (\<lambda>c. c = CHR ''/'') s"

text \<open>
  \<open>strings.Split(s, sep)\<close> for a one-byte separator: one more token than there are
  separators, so the empty string gives one empty token.
\<close>

fun Split :: "char \<Rightarrow> string \<Rightarrow> string list" where
  "Split c [] = [[]]"
| "Split c (x # xs) =
     (if x = c then [] # Split c xs
      else (case Split c xs of [] \<Rightarrow> [[x]] | t # ts \<Rightarrow> (x # t) # ts))"

text \<open>\<open>strings.Join(elems, "/")\<close>.\<close>

fun Join_slash :: "string list \<Rightarrow> string" where
  "Join_slash [] = []"
| "Join_slash [e] = e"
| "Join_slash (e # es) = e @ CHR ''/'' # Join_slash es"

text \<open>
  \<open>filepath.Clean\<close> on a Unix path, element by element: empty and \<open>.\<close> elements are
  dropped, \<open>..\<close> removes the element before it, is dropped at the root of a rooted path
  and is kept at the start of a relative one. The stack holds the kept elements, the
  last one first.
\<close>

definition clean_elem :: "bool \<Rightarrow> string list \<Rightarrow> string \<Rightarrow> string list" where
  "clean_elem rooted stk e =
     (if e = [] \<or> e = ''.'' then stk
      else if e = ''..'' then
        (case stk of
           [] \<Rightarrow> if rooted then [] else [''..'']
         | t # ts \<Rightarrow> if t = ''..'' then ''..'' # t # ts else ts)
      else e # stk)"

definition Clean :: "string \<Rightarrow> string" where
  "Clean p =
     (if p = [] then ''.''
      else
        let rooted = (hd p = CHR ''/'');
            body = Join_slash (rev (foldl (clean_elem rooted) [] (Split (CHR ''/'') p)))
        in if rooted then CHR ''/'' # body
           else if body = [] then ''.'' else body)"

text \<open>
  \<open>filepath.Join\<close>: the elements from the first non-empty one on are joined with
  slashes and the result is cleaned; with no non-empty element the result is empty.
\<close>

definition filepath_Join :: "string list \<Rightarrow> string" where
  "filepath_Join elems =
     (case dropWhile (\<lambda>e. e = []) elems of
        [] \<Rightarrow> []
      | e # es \<Rightarrow> Clean (Join_slash (e # es)))"

text \<open>
  The server's paths are relative to its working directory, the root of the store. A
  cleaned path leaves that directory when it is rooted or starts with a \<open>..\<close> element.
\<close>

definition outside_root :: "string \<Rightarrow> bool" where
  "outside_root p = (take 1 p = ''/'' \<or> p = ''..'' \<or> take 3 p = ''../'')"


text \<open>
  \<open>strings.TrimSpace\<close>: removes the leading and trailing white space runes of the
  string. A Go string holds UTF-8, so each white space code point of Unicode is listed
  with its encoding: tab, line feed, vertical tab, form feed, carriage return, space,
  U+0085, U+00A0, U+1680, U+2000 to U+200A, U+2028, U+2029, U+202F, U+205F, U+3000.
\<close>

definition space_runes :: "string list" where
  "space_runes =
     [[CHR 0x09], [CHR 0x0A], [CHR 0x0B], [CHR 0x0C], [CHR 0x0D], [CHR 0x20],
      [CHR 0xC2, CHR 0x85], [CHR 0xC2, CHR 0xA0],
      [CHR 0xE1, CHR 0x9A, CHR 0x80],
      [CHR 0xE2, CHR 0x80, CHR 0x80], [CHR 0xE2, CHR 0x80, CHR 0x81],
      [CHR 0xE2, CHR 0x80, CHR 0x82], [CHR 0xE2, CHR 0x80, CHR 0x83],
      [CHR 0xE2, CHR 0x80, CHR 0x84], [CHR 0xE2, CHR 0x80, CHR 0x85],
      [CHR 0xE2, CHR 0x80, CHR 0x86], [CHR 0xE2, CHR 0x80, CHR 0x87],
      [CHR 0xE2, CHR 0x80, CHR 0x88], [CHR 0xE2, CHR 0x80, CHR 0x89],
      [CHR 0xE2, CHR 0x80, CHR 0x8A],
      [CHR 0xE2, CHR 0x80, CHR 0xA8], [CHR 0xE2, CHR 0x80, CHR 0xA9],
      [CHR 0xE2, CHR 0x80, CHR 0xAF], [CHR 0xE2, CHR 0x81, CHR 0x9F],
      [CHR 0xE3, CHR 0x80, CHR 0x80]]"

text \<open>The number of bytes of the rune of \<open>qs\<close> that \<open>s\<close> starts with; 0 when there is none.\<close>

definition lead :: "string list \<Rightarrow> string \<Rightarrow> nat" where
  "lead qs s =
     (case find (\<lambda>q. q \<noteq> [] \<and> take (length q) s = q) qs of
        None \<Rightarrow> 0
      | Some q \<Rightarrow> length q)"

function strip :: "string list \<Rightarrow> string \<Rightarrow> string" where
  "strip qs s = (if lead qs s = 0 then s else strip qs (drop (lead qs s) s))"
  by pat_completeness auto
termination
proof (relation "measure (\<lambda>(qs, s). length s)")
  show "wf (measure (\<lambda>(qs, s). length s))" by simp
next
  fix qs :: "string list" and s :: string
  assume pos: "lead qs s \<noteq> 0"
  then have "s \<noteq> []"
    by (auto simp: lead_def find_Some_iff split: option.splits)
  with pos show "((qs, drop (lead qs s) s), (qs, s)) \<in> measure (\<lambda>(qs, s). length s)"
    by simp
qed

declare strip.simps [simp del]

definition TrimSpace :: "string \<Rightarrow> string" where
  "TrimSpace s = rev (strip (map rev space_runes) (rev (strip space_runes s)))"

text \<open>
  \<open>strconv.ParseUint(s, 10, 64)\<close>: a non-empty string of decimal digits whose value fits
  in 64 bits; anything else (empty string, sign, other byte, value out of range) is an
  error.
\<close>

definition is_digit :: "char \<Rightarrow> bool" where
  "is_digit c = (48 \<le> (of_char c :: nat) \<and> (of_char c :: nat) \<le> 57)"

fun digits_val :: "string \<Rightarrow> nat \<Rightarrow> nat option" where
  "digits_val [] acc = Some acc"
| "digits_val (c # cs) acc =
     (if is_digit c then digits_val cs (acc * 10 + (of_char c - 48)) else None)"

definition ParseUint :: "string \<Rightarrow> uint64 option" where
  "ParseUint s =
     (if s = [] then None
      else case digits_val s 0 of
             None \<Rightarrow> None
           | Some v \<Rightarrow> if v < 2 ^ 64 then Some (of_nat v) else None)"

section \<open>The range parser\<close>

datatype range_error = NoBytesPrefix | BadFormat | BadOffset | BadLength

text \<open>
  \<open>offsetAndLenFromRange\<close>. The last line of the source is
  \<open>return int64(start), int64(end-start) + 1, nil\<close>: the subtraction is on \<open>uint64\<close>, the
  addition on \<open>int64\<close>, both wrap.
\<close>

definition offsetAndLenFromRange :: "string \<Rightarrow> range_error + (int64 \<times> int64)" where
  "offsetAndLenFromRange rngStr =
     (if rngStr = [] then Inr (- 1, - 1)
      else if take 6 rngStr \<noteq> ''bytes='' then Inl NoBytesPrefix
      else
        (case Split (CHR ''-'') (drop 6 rngStr) of
           [t0, t1] \<Rightarrow>
             (case ParseUint (TrimSpace t0) of
                None \<Rightarrow> Inl BadOffset
              | Some start \<Rightarrow>
                  (case ParseUint (TrimSpace t1) of
                     None \<Rightarrow> Inl BadLength
                   | Some end \<Rightarrow> Inr (start, (end - start) + 1)))
         | _ \<Rightarrow> Inl BadFormat))"

section \<open>Operating-system, registry and transport operations\<close>

definition log_event :: "event \<Rightarrow> world \<Rightarrow> world" where
  "log_event e w = w\<lparr>trace := trace w @ [e]\<rparr>"

text \<open>The map access \<open>expectedFiles[fileId]\<close>.\<close>

definition registry_lookup :: "string \<Rightarrow> world \<Rightarrow> TableFileDetails option \<times> world" where
  "registry_lookup fileId w = (expectedFiles w fileId, log_event (EvLookup fileId) w)"

text \<open>\<open>io.ReadAll(request.Body)\<close>: the bytes read and whether the read failed.\<close>

definition io_ReadAll :: "Request \<Rightarrow> world \<Rightarrow> (byte list \<times> bool) \<times> world" where
  "io_ReadAll request w = ((Body_data request, Body_fails request), log_event EvReadBody w)"

text \<open>\<open>os.Stat\<close>: the size of the file (\<open>info.Size()\<close>, an \<open>int64\<close>), or an error.\<close>

definition os_Stat :: "string \<Rightarrow> world \<Rightarrow> (io_error + int64) \<times> world" where
  "os_Stat path w =
     (case files w path of None \<Rightarrow> Inl NotExist | Some d \<Rightarrow> Inr (of_nat (length d)),
      log_event (EvStat path) w)"

definition os_Open :: "string \<Rightarrow> world \<Rightarrow> io_error option \<times> world" where
  "os_Open path w =
     (if open_fails w path \<or> files w path = None then Some OpenFailed else None,
      log_event (EvOpen path) w)"

definition file_Close :: "string \<Rightarrow> world \<Rightarrow> world" where
  "file_Close path w = log_event (EvClose path) w"

text \<open>
  \<open>f.Seek(offset, 0)\<close>: the new position is the offset; a negative offset is an error,
  a position past the end of the file is not.
\<close>

definition file_Seek :: "string \<Rightarrow> int64 \<Rightarrow> world \<Rightarrow> (io_error + int64) \<times> world" where
  "file_Seek path offset w =
     (if seek_fails w path \<or> sint offset < 0 then Inl SeekFailed else Inr offset,
      log_event (EvSeek path) w)"

text \<open>The bytes of a file that the device delivers, and whether reading it to the end fails.\<close>

definition readable :: "world \<Rightarrow> string \<Rightarrow> byte list" where
  "readable w path =
     (case files w path of
        None \<Rightarrow> []
      | Some d \<Rightarrow> (case read_limit w path of None \<Rightarrow> d | Some k \<Rightarrow> take k d))"

definition read_breaks :: "world \<Rightarrow> string \<Rightarrow> bool" where
  "read_breaks w path =
     (case files w path of
        None \<Rightarrow> True
      | Some d \<Rightarrow> (case read_limit w path of None \<Rightarrow> False | Some k \<Rightarrow> k < length d))"

text \<open>
  Modelled from the spec: \<open>iohelp.ReadNBytes(f, n)\<close>, whose source is not among the
  embedded files. Section 4.4 of the specification: "read exactly \<open>length\<close> bytes. A
  short read or seek failure is an internal-error outcome". The call gives the \<open>n\<close>
  bytes at the position of the file, or an error when fewer can be read; a negative
  count cannot be read and is an error too.
\<close>

definition ReadNBytes :: "string \<Rightarrow> int64 \<Rightarrow> int64 \<Rightarrow> world \<Rightarrow> (io_error + byte list) \<times> world" where
  "ReadNBytes path pos n w =
     (let avail = drop (nat (sint pos)) (readable w path)
      in (if 0 \<le> sint n \<and> nat (sint n) \<le> length avail
          then Inr (take (nat (sint n)) avail) else Inl ReadFailed,
          log_event (EvRead path) w))"

text \<open>\<open>respWr.WriteHeader(code)\<close>.\<close>

definition WriteHeader :: "int \<Rightarrow> ResponseWriter \<Rightarrow> ResponseWriter" where
  "WriteHeader code rw = rw\<lparr>headers := headers rw @ [code]\<rparr>"

text \<open>
  Writing bytes to the response: all of them when the connection takes them, otherwise
  the bytes it still takes and an error. The result is the count written and the error.
\<close>

definition rw_Write :: "byte list \<Rightarrow> ResponseWriter \<Rightarrow> (nat \<times> io_error option) \<times> ResponseWriter" where
  "rw_Write data rw =
     (case send_limit rw of
        None \<Rightarrow> ((length data, None), rw\<lparr>sent := sent rw @ data\<rparr>)
      | Some k \<Rightarrow>
          if length data \<le> k
          then ((length data, None),
                rw\<lparr>sent := sent rw @ data, send_limit := Some (k - length data)\<rparr>)
          else ((k, Some SendFailed),
                rw\<lparr>sent := sent rw @ take k data, send_limit := Some 0\<rparr>))"

text \<open>
  Modelled from the spec: \<open>iohelp.WriteAll(writer, data)\<close>, whose source is not among
  the embedded files. Section 4.4 of the specification: the range is "materialized in
  full before any response bytes are emitted", and a failure after that is
  "stream-then-done". The call writes the whole slice or reports the error of the writer.
\<close>

definition WriteAll :: "byte list \<Rightarrow> ResponseWriter \<Rightarrow> io_error option \<times> ResponseWriter" where
  "WriteAll data rw = (case rw_Write data rw of ((n, err), rw') \<Rightarrow> (err, rw'))"

text \<open>
  \<open>io.Copy(writer, f)\<close> from the start of the file: the bytes the device delivers go to
  the writer; the result is the count copied and the first error (of the writer, or of
  the device when it stops before the end of the file).
\<close>

definition io_Copy :: "string \<Rightarrow> ResponseWriter \<Rightarrow> world \<Rightarrow> (int64 \<times> io_error option) \<times> ResponseWriter \<times> world" where
  "io_Copy path rw w =
     (case rw_Write (readable w path) rw of
        ((n, werr), rw') \<Rightarrow>
          ((of_nat n,
            (case werr of
               Some e \<Rightarrow> Some e
             | None \<Rightarrow> if read_breaks w path then Some ReadFailed else None)),
           rw', log_event (EvRead path) w))"

text \<open>
  \<open>os.WriteFile(path, data, perm)\<close>: replaces the contents of the file; a refused write
  leaves the filesystem as it was, a short write leaves a prefix of the data.
\<close>

definition os_WriteFile :: "string \<Rightarrow> byte list \<Rightarrow> world \<Rightarrow> io_error option \<times> world" where
  "os_WriteFile path data w =
     (let w' = log_event (EvWriteFile path) w
      in case write_fault w path of
           None \<Rightarrow> (None, w'\<lparr>files := (files w')(path \<mapsto> data)\<rparr>)
         | Some WriteRefused \<Rightarrow> (Some WriteFailed, w')
         | Some (WriteShort k) \<Rightarrow>
             (Some WriteFailed, w'\<lparr>files := (files w')(path \<mapsto> take k data)\<rparr>))"

section \<open>The handler\<close>

definition writeLocal :: "string \<Rightarrow> string \<Rightarrow> string \<Rightarrow> byte list \<Rightarrow> world \<Rightarrow> io_error option \<times> world" where
  "writeLocal org repo fileId data w =
     (let path = filepath_Join [org, repo, fileId]
      in os_WriteFile path data w)"

text \<open>
  \<open>writeTableFile\<close>, in the order of the source: hash check, registry lookup, body read,
  length check, checksum check, and only then the error of the body read.
\<close>

definition writeTableFile :: "deps \<Rightarrow> string \<Rightarrow> string \<Rightarrow> string \<Rightarrow> Request \<Rightarrow> world \<Rightarrow> int \<times> world" where
  "writeTableFile D org repo fileId request w =
     (if \<not> MaybeParse D fileId then (StatusBadRequest, w)
      else
        (case registry_lookup fileId w of
           (None, w1) \<Rightarrow> (StatusBadRequest, w1)
         | (Some tfd, w1) \<Rightarrow>
             (case io_ReadAll request w1 of
                ((data, err), w2) \<Rightarrow>
                  if ContentLength tfd \<noteq> 0 \<and> ContentLength tfd \<noteq> of_nat (length data)
                  then (StatusBadRequest, w2)
                  else if length (ContentHash tfd) > 0 \<and> ContentHash tfd \<noteq> md5_Sum D data
                  then (StatusBadRequest, w2)
                  else if err then (StatusInternalServerError, w2)
                  else
                    (case writeLocal org repo fileId data w2 of
                       (Some e, w3) \<Rightarrow> (StatusInternalServerError, w3)
                     | (None, w3) \<Rightarrow> (StatusOK, w3)))))"

text \<open>\<open>readFile\<close>: every path after the copy returns the sentinel \<open>-1\<close>.\<close>

definition readFile :: "string \<Rightarrow> string \<Rightarrow> string \<Rightarrow> ResponseWriter \<Rightarrow> world \<Rightarrow> int \<times> ResponseWriter \<times> world" where
  "readFile org repo fileId writer w =
     (let path = filepath_Join [org, repo, fileId]
      in case os_Stat path w of
           (Inl e, w1) \<Rightarrow> (StatusNotFound, writer, w1)
         | (Inr fsize, w1) \<Rightarrow>
             (case os_Open path w1 of
                (Some e, w2) \<Rightarrow> (StatusInternalServerError, writer, w2)
              | (None, w2) \<Rightarrow>
                  (case io_Copy path writer w2 of
                     ((n, err), writer', w3) \<Rightarrow>
                       if err \<noteq> None then (- 1, writer', file_Close path w3)
                       else if n \<noteq> fsize then (- 1, writer', file_Close path w3)
                       else (- 1, writer', file_Close path w3))))"

text \<open>
  \<open>readLocalRange\<close>. The size check compares \<open>info.Size()\<close> with the \<open>int64\<close> sum
  \<open>offset+length\<close>; \<open>data[diff:]\<close> drops the first \<open>diff\<close> bytes read. The type \<open>int\<close> of
  the count passed to \<open>ReadNBytes\<close> has 64 bits, as on the 64-bit platforms the server
  is built for, so the conversions between \<open>int\<close> and \<open>int64\<close> change nothing.
\<close>

definition readLocalRange :: "string \<Rightarrow> string \<Rightarrow> string \<Rightarrow> int64 \<Rightarrow> int64 \<Rightarrow> world \<Rightarrow> (byte list \<times> int) \<times> world" where
  "readLocalRange org repo fileId offset len w =
     (let path = filepath_Join [org, repo, fileId]
      in case os_Stat path w of
           (Inl e, w1) \<Rightarrow> (([], StatusNotFound), w1)
         | (Inr fsize, w1) \<Rightarrow>
             if sint fsize < sint (offset + len) then (([], StatusBadRequest), w1)
             else
               (case os_Open path w1 of
                  (Some e, w2) \<Rightarrow> (([], StatusInternalServerError), w2)
                | (None, w2) \<Rightarrow>
                    (case file_Seek path offset w2 of
                       (Inl e, w3) \<Rightarrow> (([], StatusInternalServerError), file_Close path w3)
                     | (Inr pos, w3) \<Rightarrow>
                         (let diff = offset - pos
                          in case ReadNBytes path pos (diff + len) w3 of
                               (Inl e, w4) \<Rightarrow>
                                 (([], StatusInternalServerError), file_Close path w4)
                             | (Inr data, w4) \<Rightarrow>
                                 ((drop (nat (sint diff)) data, - 1), file_Close path w4)))))"

definition readChunk :: "string \<Rightarrow> string \<Rightarrow> string \<Rightarrow> string \<Rightarrow> ResponseWriter \<Rightarrow> world \<Rightarrow> int \<times> ResponseWriter \<times> world" where
  "readChunk org repo fileId rngStr writer w =
     (case offsetAndLenFromRange rngStr of
        Inl e \<Rightarrow> (StatusBadRequest, writer, w)
      | Inr (offset, len) \<Rightarrow>
          (case readLocalRange org repo fileId offset len w of
             ((data, retVal), w1) \<Rightarrow>
               if retVal \<noteq> - 1 then (retVal, writer, w1)
               else
                 (case WriteAll data writer of
                    (Some e, writer') \<Rightarrow> (- 1, writer', w1)
                  | (None, writer') \<Rightarrow> (- 1, writer', w1))))"

text \<open>
  \<open>ServeHTTP\<close>. The branch for a token count other than three writes the not-found
  header and has no \<open>return\<close>: control goes on to \<open>tokens[0]\<close>, \<open>tokens[1]\<close>,
  \<open>tokens[2]\<close>, which panic with an index out of range when there are fewer than three
  tokens. The result is the panic, if any, with the response writer and the world at
  that point.
\<close>

datatype panic = IndexOutOfRange

definition dispatch :: "deps \<Rightarrow> Request \<Rightarrow> string \<Rightarrow> string \<Rightarrow> string \<Rightarrow> ResponseWriter \<Rightarrow> world \<Rightarrow> int \<times> ResponseWriter \<times> world" where
  "dispatch D req org repo hashStr respWr w =
     (if Method req = ''GET'' then
        (let rangeStr = Header_Range req
         in if rangeStr = [] then readFile org repo hashStr respWr w
            else readChunk org repo hashStr rangeStr respWr w)
      else if Method req = ''POST'' \<or> Method req = ''PUT'' then
        (case writeTableFile D org repo hashStr req w of (code, w') \<Rightarrow> (code, respWr, w'))
      else (StatusMethodNotAllowed, respWr, w))"

definition ServeHTTP :: "deps \<Rightarrow> Request \<Rightarrow> ResponseWriter \<Rightarrow> world \<Rightarrow> panic option \<times> ResponseWriter \<times> world" where
  "ServeHTTP D req respWr w =
     (let path = TrimLeft_slash (URL_Path req);
          tokens = Split (CHR ''/'') path;
          respWr1 = (if length tokens \<noteq> 3 then WriteHeader StatusNotFound respWr else respWr)
      in case tokens of
           org # repo # hashStr # rest \<Rightarrow>
             (case dispatch D req org repo hashStr respWr1 w of
                (statusCode, respWr2, w2) \<Rightarrow>
                  (None,
                   if statusCode \<noteq> - 1 then WriteHeader statusCode respWr2 else respWr2,
                   w2))
         | _ \<Rightarrow> (Some IndexOutOfRange, respWr1, w))"

section \<open>The words of the specification, and sample data\<close>

text \<open>
  The two admission checks in the words of the specification: a nonzero expected
  length that differs from the byte count of the body, a nonempty expected hash that
  differs from the checksum of the body.
\<close>

definition length_mismatch :: "TableFileDetails \<Rightarrow> byte list \<Rightarrow> bool" where
  "length_mismatch tfd data = (ContentLength tfd \<noteq> 0 \<and> unat (ContentLength tfd) \<noteq> length data)"

definition hash_mismatch :: "deps \<Rightarrow> TableFileDetails \<Rightarrow> byte list \<Rightarrow> bool" where
  "hash_mismatch D tfd data = (ContentHash tfd \<noteq> [] \<and> ContentHash tfd \<noteq> md5_Sum D data)"

text \<open>
  Sample data for the instances below: a world without files, registry entries or
  faults; a response writer nothing has been written to; a hash parser that accepts 32
  characters of the base-32 alphabet, with a byte sum standing in for the checksum; a
  file id that parses; requests.
\<close>

definition quiet_world :: world where
  "quiet_world =
     \<lparr>expectedFiles = Map.empty, files = Map.empty, open_fails = (\<lambda>p. False),
      seek_fails = (\<lambda>p. False), read_limit = (\<lambda>p. None), write_fault = (\<lambda>p. None),
      trace = []\<rparr>"

definition fresh_writer :: ResponseWriter where
  "fresh_writer = \<lparr>headers = [], sent = [], send_limit = None\<rparr>"

definition sample_deps :: deps where
  "sample_deps =
     \<lparr>MaybeParse = (\<lambda>s. length s = 32 \<and>
         list_all (\<lambda>c. c \<in> set ''0123456789abcdefghijklmnopqrstuv'') s),
      md5_Sum = (\<lambda>d. [sum_list d])\<rparr>"

definition sample_id :: string where
  "sample_id = ''0123456789abcdefghijklmnopqrstuv''"

definition registered :: "TableFileDetails \<Rightarrow> world" where
  "registered tfd = quiet_world\<lparr>expectedFiles := [sample_id \<mapsto> tfd]\<rparr>"

definition stored :: "string \<Rightarrow> byte list \<Rightarrow> world" where
  "stored path content = quiet_world\<lparr>files := [path \<mapsto> content]\<rparr>"

definition upload_request :: "string \<Rightarrow> byte list \<Rightarrow> bool \<Rightarrow> Request" where
  "upload_request path body fails =
     \<lparr>Method = ''PUT'', URL_Path = path, Header_Range = [], Body_data = body,
      Body_fails = fails\<rparr>"

definition get_request :: "string \<Rightarrow> string \<Rightarrow> Request" where
  "get_request path rng =
     \<lparr>Method = ''GET'', URL_Path = path, Header_Range = rng, Body_data = [],
      Body_fails = False\<rparr>"

section \<open>Arithmetic on 64-bit values\<close>

lemma sint_of_small:
  fixes x :: "64 word"
  assumes small: "unat x < 2 ^ 63"
  shows "sint x = int (unat x)"
proof -
  from small have up: "int (unat x) < 2 ^ 63"
    by (simp only: of_nat_less_numeral_power_cancel_iff)
  have "(0::int) \<le> int (unat x)" by (rule of_nat_0_le_iff)
  moreover have "- (2 ^ 63) \<le> (0::int)" by simp
  ultimately have low: "- (2 ^ 63) \<le> int (unat x)" by (rule order_trans [rotated])
  have keep: "signed_take_bit 63 (int (unat x)) = int (unat x)"
    using low up by (rule signed_take_bit_int_eq_self)
  have "sint x = signed_take_bit (LENGTH(64) - Suc 0) (uint x)"
    by (rule sint_uint)
  also have "LENGTH(64) - Suc 0 = 63" by simp
  also have "uint x = int (unat x)" by (rule uint_nat)
  finally show ?thesis using keep by (simp only:)
qed

lemma unat_of_nat_small:
  assumes "n < 2 ^ 64"
  shows "unat (of_nat n :: 64 word) = n"
proof -
  have "unat (of_nat n :: 64 word) = n mod 2 ^ LENGTH(64)" by (rule unat_of_nat)
  also have "\<dots> = n" using assms by simp
  finally show ?thesis .
qed

lemma unat_succ:
  fixes b :: "64 word"
  assumes "unat b < 2 ^ 63"
  shows "unat (b + 1) = unat b + 1"
proof -
  have one: "unat (1 :: 64 word) = 1" by (rule unat_1)
  have "unat b + unat (1 :: 64 word) < 2 ^ LENGTH(64)"
    using assms unfolding one by simp
  then have "unat (b + 1) = unat b + unat (1 :: 64 word)"
    by (rule unat_add_lem [THEN iffD1])
  then show ?thesis unfolding one .
qed

lemma below_63_below_64: "(n::nat) < 2 ^ 63 \<Longrightarrow> n < 2 ^ 64"
proof -
  assume "n < 2 ^ 63"
  moreover have "(2::nat) ^ 63 < 2 ^ 64" by simp
  ultimately show ?thesis by (rule less_trans)
qed

lemma sint_file_size:
  assumes "length (d :: byte list) < 2 ^ 63"
  shows "sint (of_nat (length d) :: 64 word) = int (length d)"
proof -
  have u: "unat (of_nat (length d) :: 64 word) = length d"
    using assms by (intro unat_of_nat_small below_63_below_64)
  have "sint (of_nat (length d) :: 64 word) = int (unat (of_nat (length d) :: 64 word))"
    by (rule sint_of_small) (simp only: u assms)
  then show ?thesis by (simp only: u)
qed

lemma length_matches_iff:
  assumes "length (d :: byte list) < 2 ^ 63"
  shows "(c = (of_nat (length d) :: 64 word)) \<longleftrightarrow> unat c = length d"
proof -
  have u: "unat (of_nat (length d) :: 64 word) = length d"
    using assms by (intro unat_of_nat_small below_63_below_64)
  have "(c = (of_nat (length d) :: 64 word)) \<longleftrightarrow> unat c = unat (of_nat (length d) :: 64 word)"
    by (rule word_unat_eq_iff)
  then show ?thesis by (simp only: u)
qed

lemma range_arith:
  fixes a b :: "64 word"
  assumes size: "L < 2 ^ 63" and ab: "a \<le> b" and bL: "unat b < L"
  shows "nat (sint a) = unat a"
    and "\<not> sint a < 0"
    and "sint (b - a + 1) = int (unat b - unat a + 1)"
    and "sint (a + (b - a + 1)) = int (unat b + 1)"
    and "unat a \<le> unat b"
proof -
  from ab show le: "unat a \<le> unat b" by (simp only: word_le_nat_alt)
  from bL size have b63: "unat b < 2 ^ 63" by (rule less_trans)
  from le b63 have a63: "unat a < 2 ^ 63" by (rule le_less_trans)
  have sa: "sint a = int (unat a)" using a63 by (rule sint_of_small)
  show "nat (sint a) = unat a" by (simp only: sa nat_int)
  show "\<not> sint a < 0" by (simp only: sa not_less of_nat_0_le_iff)
  have d: "unat (b - a) = unat b - unat a" using ab by (rule unat_sub)
  have "unat b - unat a \<le> unat b" by (rule diff_le_self)
  then have d63: "unat (b - a) < 2 ^ 63" using b63 unfolding d by (rule le_less_trans)
  have d1: "unat (b - a + 1) = unat b - unat a + 1"
    using unat_succ [OF d63] by (simp only: d)
  have "unat b - unat a + 1 \<le> unat b + 1" by simp
  also have "unat b + 1 \<le> L" using bL by simp
  finally have "unat b - unat a + 1 < 2 ^ 63" using size by (rule le_less_trans)
  then have "unat (b - a + 1) < 2 ^ 63" by (simp only: d1)
  then have "sint (b - a + 1) = int (unat (b - a + 1))" by (rule sint_of_small)
  then show "sint (b - a + 1) = int (unat b - unat a + 1)" by (simp only: d1)
  have e: "a + (b - a + 1) = b + 1" by simp
  have b1: "unat (b + 1) = unat b + 1" using b63 by (rule unat_succ)
  have "unat b + 1 \<le> L" using bL by simp
  then have "unat b + 1 < 2 ^ 63" using size by (rule le_less_trans)
  then have "unat (b + 1) < 2 ^ 63" by (simp only: b1)
  then have "sint (b + 1) = int (unat (b + 1))" by (rule sint_of_small)
  then show "sint (a + (b - a + 1)) = int (unat b + 1)" by (simp only: e b1)
qed


section \<open>Tokens\<close>

lemma Split_nonempty: "Split c s \<noteq> []"
  by (induction s) (auto split: list.splits)

lemma Split_no_sep: "c \<notin> set s \<Longrightarrow> Split c s = [s]"
  by (induction s) (auto split: list.splits)

lemma Split_at_sep: "c \<notin> set s \<Longrightarrow> Split c (s @ c # t) = s # Split c t"
  by (induction s) (auto split: list.splits simp: Split_nonempty)

lemma range_tokens:
  "CHR ''-'' \<notin> set sa \<Longrightarrow> CHR ''-'' \<notin> set sb \<Longrightarrow> Split (CHR ''-'') (sa @ CHR ''-'' # sb) = [sa, sb]"
  by (simp add: Split_at_sep Split_no_sep)

lemma parse_range:
  assumes "ParseUint (TrimSpace sa) = Some a" and "ParseUint (TrimSpace sb) = Some b"
    and "CHR ''-'' \<notin> set sa" and "CHR ''-'' \<notin> set sb"
  shows "offsetAndLenFromRange (''bytes='' @ sa @ CHR ''-'' # sb) = Inr (a, (b - a) + 1)"
  using assms by (simp add: offsetAndLenFromRange_def range_tokens)


section \<open>Uploads\<close>

lemma upload_rejected:
  assumes "MaybeParse D fileId" and "expectedFiles w fileId = Some tfd"
    and "length (Body_data req) < 2 ^ 63"
    and "length_mismatch tfd (Body_data req) \<or> hash_mismatch D tfd (Body_data req)"
  shows "writeTableFile D org repo fileId req w =
           (StatusBadRequest, w\<lparr>trace := trace w @ [EvLookup fileId, EvReadBody]\<rparr>)"
  using assms length_matches_iff [of "Body_data req" "ContentLength tfd"]
  by (auto simp add: writeTableFile_def registry_lookup_def io_ReadAll_def log_event_def
      length_mismatch_def hash_mismatch_def)

lemma upload_accepted:
  assumes "MaybeParse D fileId" and "expectedFiles w fileId = Some tfd"
    and "\<not> length_mismatch tfd (Body_data req)" and "\<not> hash_mismatch D tfd (Body_data req)"
    and "\<not> Body_fails req" and "write_fault w (filepath_Join [org, repo, fileId]) = None"
  shows "writeTableFile D org repo fileId req w =
           (StatusOK,
            w\<lparr>files := (files w)(filepath_Join [org, repo, fileId] \<mapsto> Body_data req),
              trace := trace w @ [EvLookup fileId, EvReadBody,
                                  EvWriteFile (filepath_Join [org, repo, fileId])]\<rparr>)"
proof -
  have len: "ContentLength tfd = 0 \<or> ContentLength tfd = of_nat (length (Body_data req))"
  proof (cases "ContentLength tfd = 0")
    case True then show ?thesis by simp
  next
    case False
    with assms(3) have "unat (ContentLength tfd) = length (Body_data req)"
      by (simp add: length_mismatch_def)
    then have "of_nat (unat (ContentLength tfd)) = (of_nat (length (Body_data req)) :: 64 word)"
      by (simp only:)
    then show ?thesis by simp
  qed
  show ?thesis
    using assms(1,2,4,5,6) len
    by (auto simp add: writeTableFile_def registry_lookup_def io_ReadAll_def log_event_def
        hash_mismatch_def writeLocal_def os_WriteFile_def Let_def)
qed

text \<open>
  Claim C4. An upload whose file id has no entry in the admission registry is answered
  with bad-request and creates no file: the files of the filesystem are the ones before
  the call, and the only operation performed is the registry lookup (none at all when
  the file id does not parse as a hash).
\<close>

theorem unregistered_upload_rejected:
  assumes "expectedFiles w fileId = None"
  shows "fst (writeTableFile D org repo fileId req w) = StatusBadRequest \<and>
         files (snd (writeTableFile D org repo fileId req w)) = files w \<and>
         trace (snd (writeTableFile D org repo fileId req w)) =
           (if MaybeParse D fileId then trace w @ [EvLookup fileId] else trace w)"
  using assms
  by (simp add: writeTableFile_def registry_lookup_def log_event_def)

theorem unregistered_upload_rejected_witness:
  "expectedFiles quiet_world sample_id = None \<and>
   fst (writeTableFile sample_deps ''org'' ''repo'' sample_id
          (upload_request (''/org/repo/'' @ sample_id) [1, 2, 3] False) quiet_world) = StatusBadRequest \<and>
   files (snd (writeTableFile sample_deps ''org'' ''repo'' sample_id
          (upload_request (''/org/repo/'' @ sample_id) [1, 2, 3] False) quiet_world)) = Map.empty \<and>
   trace (snd (writeTableFile sample_deps ''org'' ''repo'' sample_id
          (upload_request (''/org/repo/'' @ sample_id) [1, 2, 3] False) quiet_world)) = [EvLookup sample_id]"
proof -
  have none: "expectedFiles quiet_world sample_id = None"
    by (simp add: quiet_world_def)
  have ok: "MaybeParse sample_deps sample_id"
    by (simp add: sample_deps_def sample_id_def)
  show ?thesis
    using none ok
      unregistered_upload_rejected [OF none, of sample_deps "''org''" "''repo''"
        "upload_request (''/org/repo/'' @ sample_id) [1, 2, 3] False"]
    by (simp add: quiet_world_def)
qed

text \<open>
  Claim C3. For an upload with a registered manifest: when the manifest gives a nonzero
  length that differs from the byte count of the body, or a nonempty hash that differs
  from the checksum of the body, the answer is bad-request and the world is the one
  before the call but for the trace of the lookup and the body read (nothing is
  written). When length and checksum both match, the body was read without error and
  the filesystem takes the write, the answer is OK and the file at the storage key holds
  exactly the body. The byte count of a Go slice is below \<open>2 ^ 63\<close>.
\<close>

theorem upload_integrity_gate:
  assumes "MaybeParse D fileId" and "expectedFiles w fileId = Some tfd"
    and "length (Body_data req) < 2 ^ 63"
  shows "(length_mismatch tfd (Body_data req) \<or> hash_mismatch D tfd (Body_data req) \<longrightarrow>
            writeTableFile D org repo fileId req w =
              (StatusBadRequest, w\<lparr>trace := trace w @ [EvLookup fileId, EvReadBody]\<rparr>)) \<and>
         (\<not> length_mismatch tfd (Body_data req) \<and> \<not> hash_mismatch D tfd (Body_data req) \<and>
          \<not> Body_fails req \<and> write_fault w (filepath_Join [org, repo, fileId]) = None \<longrightarrow>
            writeTableFile D org repo fileId req w =
              (StatusOK,
               w\<lparr>files := (files w)(filepath_Join [org, repo, fileId] \<mapsto> Body_data req),
                 trace := trace w @ [EvLookup fileId, EvReadBody,
                                     EvWriteFile (filepath_Join [org, repo, fileId])]\<rparr>))"
  using upload_rejected [OF assms] upload_accepted [OF assms(1,2)]
  by blast


theorem upload_integrity_gate_witness:
  "MaybeParse sample_deps sample_id \<and>
   writeTableFile sample_deps ''org'' ''repo'' sample_id
      (upload_request (''/org/repo/'' @ sample_id) [1, 2, 3] False)
      (registered \<lparr>ContentLength = 10, ContentHash = []\<rparr>) =
     (StatusBadRequest,
      registered \<lparr>ContentLength = 10, ContentHash = []\<rparr>
        \<lparr>trace := [EvLookup sample_id, EvReadBody]\<rparr>) \<and>
   writeTableFile sample_deps ''org'' ''repo'' sample_id
      (upload_request (''/org/repo/'' @ sample_id) [1, 2, 3] False)
      (registered \<lparr>ContentLength = 3, ContentHash = [7]\<rparr>) =
     (StatusBadRequest,
      registered \<lparr>ContentLength = 3, ContentHash = [7]\<rparr>
        \<lparr>trace := [EvLookup sample_id, EvReadBody]\<rparr>) \<and>
   writeTableFile sample_deps ''org'' ''repo'' sample_id
      (upload_request (''/org/repo/'' @ sample_id) [1, 2, 3] False)
      (registered \<lparr>ContentLength = 3, ContentHash = [6]\<rparr>) =
     (StatusOK,
      registered \<lparr>ContentLength = 3, ContentHash = [6]\<rparr>
        \<lparr>files := [filepath_Join [''org'', ''repo'', sample_id] \<mapsto> [1, 2, 3]],
          trace := [EvLookup sample_id, EvReadBody,
                    EvWriteFile (filepath_Join [''org'', ''repo'', sample_id])]\<rparr>)"
proof -
  let ?req = "upload_request (''/org/repo/'' @ sample_id) [1, 2, 3] False"
  have ok: "MaybeParse sample_deps sample_id"
    by (simp add: sample_deps_def sample_id_def)
  have len: "length (Body_data ?req) < 2 ^ 63"
    by (simp add: upload_request_def)
  have reg: "expectedFiles (registered tfd) sample_id = Some tfd" for tfd
    by (simp add: registered_def)
  have m1: "length_mismatch \<lparr>ContentLength = 10, ContentHash = []\<rparr> (Body_data ?req)"
    by (simp add: length_mismatch_def upload_request_def)
  have m2: "hash_mismatch sample_deps \<lparr>ContentLength = 3, ContentHash = [7]\<rparr> (Body_data ?req)"
    by (simp add: hash_mismatch_def upload_request_def sample_deps_def)
  have m3: "\<not> length_mismatch \<lparr>ContentLength = 3, ContentHash = [6]\<rparr> (Body_data ?req)"
    "\<not> hash_mismatch sample_deps \<lparr>ContentLength = 3, ContentHash = [6]\<rparr> (Body_data ?req)"
    "\<not> Body_fails ?req"
    "write_fault (registered \<lparr>ContentLength = 3, ContentHash = [6]\<rparr>)
       (filepath_Join [''org'', ''repo'', sample_id]) = None"
    by (simp_all add: length_mismatch_def hash_mismatch_def upload_request_def sample_deps_def
        registered_def quiet_world_def)
  show ?thesis
    using ok m1 m2 m3
      upload_integrity_gate [OF ok reg len, of "\<lparr>ContentLength = 10, ContentHash = []\<rparr>" "''org''" "''repo''"]
      upload_integrity_gate [OF ok reg len, of "\<lparr>ContentLength = 3, ContentHash = [7]\<rparr>" "''org''" "''repo''"]
      upload_integrity_gate [OF ok reg len, of "\<lparr>ContentLength = 3, ContentHash = [6]\<rparr>" "''org''" "''repo''"]
    by (simp add: registered_def quiet_world_def upload_request_def)
qed


section \<open>Reads\<close>

lemma ServeHTTP_three_tokens:
  assumes "Split (CHR ''/'') (TrimLeft_slash (URL_Path req)) = [org, repo, hashStr]"
  shows "ServeHTTP D req respWr w =
           (case dispatch D req org repo hashStr respWr w of
              (statusCode, respWr2, w2) \<Rightarrow>
                (None, if statusCode \<noteq> - 1 then WriteHeader statusCode respWr2 else respWr2, w2))"
  using assms by (simp add: ServeHTTP_def Let_def)

lemma readFile_ok:
  assumes "files w (filepath_Join [org, repo, fileId]) = Some content"
    and "\<not> open_fails w (filepath_Join [org, repo, fileId])"
    and "read_limit w (filepath_Join [org, repo, fileId]) = None"
    and "send_limit writer = None"
  shows "readFile org repo fileId writer w =
           (- 1, writer\<lparr>sent := sent writer @ content\<rparr>,
            w\<lparr>trace := trace w @
               [EvStat (filepath_Join [org, repo, fileId]), EvOpen (filepath_Join [org, repo, fileId]),
                EvRead (filepath_Join [org, repo, fileId]), EvClose (filepath_Join [org, repo, fileId])]\<rparr>)"
  using assms
  by (simp add: readFile_def Let_def os_Stat_def os_Open_def io_Copy_def rw_Write_def
      readable_def read_breaks_def file_Close_def log_event_def)

lemma readLocalRange_ok:
  assumes stored: "files w (filepath_Join [org, repo, fileId]) = Some content"
    and size: "length content < 2 ^ 63"
    and ab: "a \<le> b" and bL: "unat b < length content"
    and opn: "\<not> open_fails w (filepath_Join [org, repo, fileId])"
    and seek: "\<not> seek_fails w (filepath_Join [org, repo, fileId])"
    and rd: "read_limit w (filepath_Join [org, repo, fileId]) = None"
  shows "readLocalRange org repo fileId a (b - a + 1) w =
           ((take (unat b - unat a + 1) (drop (unat a) content), - 1),
            w\<lparr>trace := trace w @
               [EvStat (filepath_Join [org, repo, fileId]), EvOpen (filepath_Join [org, repo, fileId]),
                EvSeek (filepath_Join [org, repo, fileId]), EvRead (filepath_Join [org, repo, fileId]),
                EvClose (filepath_Join [org, repo, fileId])]\<rparr>)"
proof -
  note ar = range_arith [OF size ab bL]
  have chk: "\<not> sint (of_nat (length content) :: 64 word) < sint (a + (b - a + 1))"
    unfolding sint_file_size [OF size] ar(4) using bL by linarith
  have chk': "\<not> sint (of_nat (length content) :: 64 word) < sint (b + 1)"
    using chk by simp
  have n: "nat (sint (b - a + 1)) = unat b - unat a + 1"
    by (simp only: ar(3) nat_int)
  have pos: "0 \<le> sint (b - a + 1)"
    by (simp only: ar(3) of_nat_0_le_iff)
  have fits: "Suc (unat b - unat a) \<le> length content - unat a"
    using bL ar(5) by linarith
  show ?thesis
    using stored opn seek rd fits
    by (simp add: readLocalRange_def Let_def os_Stat_def os_Open_def file_Seek_def
        ReadNBytes_def readable_def file_Close_def log_event_def chk chk' ar(1) ar(2) n pos)
qed

lemma readChunk_range_ok:
  assumes stored: "files w (filepath_Join [org, repo, fileId]) = Some content"
    and size: "length content < 2 ^ 63"
    and pa: "ParseUint (TrimSpace sa) = Some a" and pb: "ParseUint (TrimSpace sb) = Some b"
    and da: "CHR ''-'' \<notin> set sa" and db: "CHR ''-'' \<notin> set sb"
    and ab: "a \<le> b" and bL: "unat b < length content"
    and opn: "\<not> open_fails w (filepath_Join [org, repo, fileId])"
    and seek: "\<not> seek_fails w (filepath_Join [org, repo, fileId])"
    and rd: "read_limit w (filepath_Join [org, repo, fileId]) = None"
    and lim: "send_limit writer = None"
  shows "readChunk org repo fileId (''bytes='' @ sa @ ''-'' @ sb) writer w =
      (- 1, writer\<lparr>sent := sent writer @ take (unat b - unat a + 1) (drop (unat a) content)\<rparr>,
       w\<lparr>trace := trace w @
               [EvStat (filepath_Join [org, repo, fileId]), EvOpen (filepath_Join [org, repo, fileId]),
                EvSeek (filepath_Join [org, repo, fileId]), EvRead (filepath_Join [org, repo, fileId]),
                EvClose (filepath_Join [org, repo, fileId])]\<rparr>)"
proof -
  have rng: "offsetAndLenFromRange (''bytes='' @ sa @ ''-'' @ sb) = Inr (a, b - a + 1)"
    using parse_range [OF pa pb da db] by simp
  show ?thesis
    unfolding readChunk_def rng
    using lim
    by (simp add: readLocalRange_ok [OF stored size ab bL opn seek rd] WriteAll_def rw_Write_def)
qed

lemma parse_1: "ParseUint (TrimSpace ''1'') = Some 1"
  by (simp add: TrimSpace_def strip.simps lead_def space_runes_def ParseUint_def is_digit_def)

lemma parse_3: "ParseUint (TrimSpace ''3'') = Some 3"
  by (simp add: TrimSpace_def strip.simps lead_def space_runes_def ParseUint_def is_digit_def)

lemma sample_tokens:
  "Split (CHR ''/'') (TrimLeft_slash (''/org/repo/'' @ sample_id)) = [''org'', ''repo'', sample_id]"
  by (simp add: TrimLeft_slash_def sample_id_def)

text \<open>
  Claim C5. A GET for a stored file with the header \<open>Range: bytes=a-b\<close>, where
  \<open>a \<le> b < fileSize\<close>, sends exactly \<open>b - a + 1\<close> bytes, the bytes of the file at the
  positions \<open>a\<close> to \<open>b\<close>, and writes no status header. The numbers are given by any two
  strings that the parser reads as \<open>a\<close> and \<open>b\<close>; the size of a file is an \<open>int64\<close>,
  hence below \<open>2 ^ 63\<close>; the file can be opened, positioned and read, and the
  connection takes the bytes.
\<close>

theorem ranged_get_returns_requested_bytes:
  assumes tok: "Split (CHR ''/'') (TrimLeft_slash (URL_Path req)) = [org, repo, fileId]"
    and get: "Method req = ''GET''"
    and hdr: "Header_Range req = ''bytes='' @ sa @ ''-'' @ sb"
    and pa: "ParseUint (TrimSpace sa) = Some a" and pb: "ParseUint (TrimSpace sb) = Some b"
    and da: "CHR ''-'' \<notin> set sa" and db: "CHR ''-'' \<notin> set sb"
    and stored: "files w (filepath_Join [org, repo, fileId]) = Some content"
    and size: "length content < 2 ^ 63"
    and ab: "a \<le> b" and bL: "unat b < length content"
    and opn: "\<not> open_fails w (filepath_Join [org, repo, fileId])"
    and seek: "\<not> seek_fails w (filepath_Join [org, repo, fileId])"
    and rd: "read_limit w (filepath_Join [org, repo, fileId]) = None"
    and lim: "send_limit respWr = None"
  shows "fst (ServeHTTP D req respWr w) = None \<and>
         fst (snd (ServeHTTP D req respWr w)) =
           respWr\<lparr>sent := sent respWr @ take (unat b - unat a + 1) (drop (unat a) content)\<rparr> \<and>
         length (take (unat b - unat a + 1) (drop (unat a) content)) = unat b - unat a + 1 \<and>
         (\<forall>i < unat b - unat a + 1.
            take (unat b - unat a + 1) (drop (unat a) content) ! i = content ! (unat a + i))"
proof -
  have le: "unat a \<le> unat b" using ab by (simp only: word_le_nat_alt)
  have ne: "Header_Range req \<noteq> []" unfolding hdr by simp
  have chunk: "dispatch D req org repo fileId respWr w =
      readChunk org repo fileId (''bytes='' @ sa @ ''-'' @ sb) respWr w"
    using get ne by (simp add: dispatch_def Let_def hdr)
  have served: "ServeHTTP D req respWr w =
      (None, respWr\<lparr>sent := sent respWr @ take (unat b - unat a + 1) (drop (unat a) content)\<rparr>,
       w\<lparr>trace := trace w @
               [EvStat (filepath_Join [org, repo, fileId]), EvOpen (filepath_Join [org, repo, fileId]),
                EvSeek (filepath_Join [org, repo, fileId]), EvRead (filepath_Join [org, repo, fileId]),
                EvClose (filepath_Join [org, repo, fileId])]\<rparr>)"
    unfolding ServeHTTP_three_tokens [OF tok] chunk
      readChunk_range_ok [OF stored size pa pb da db ab bL opn seek rd lim]
    by simp
  have len: "length (take (unat b - unat a + 1) (drop (unat a) content)) = unat b - unat a + 1"
    using le bL by simp
  have nth: "\<forall>i < unat b - unat a + 1.
            take (unat b - unat a + 1) (drop (unat a) content) ! i = content ! (unat a + i)"
    using le bL by simp
  show ?thesis
    unfolding served using len nth by simp
qed

theorem ranged_get_returns_requested_bytes_witness:
  "fst (ServeHTTP sample_deps (get_request (''/org/repo/'' @ sample_id) ''bytes=1-3'') fresh_writer
      (stored (filepath_Join [''org'', ''repo'', sample_id]) [10, 20, 30, 40, 50])) = None \<and>
   fst (snd (ServeHTTP sample_deps (get_request (''/org/repo/'' @ sample_id) ''bytes=1-3'') fresh_writer
      (stored (filepath_Join [''org'', ''repo'', sample_id]) [10, 20, 30, 40, 50]))) =
     \<lparr>headers = [], sent = [20, 30, 40], send_limit = None\<rparr>"
proof -
  let ?req = "get_request (''/org/repo/'' @ sample_id) ''bytes=1-3''"
  let ?p = "filepath_Join [''org'', ''repo'', sample_id]"
  let ?w = "stored ?p [10, 20, 30, 40, 50]"
  have tok: "Split (CHR ''/'') (TrimLeft_slash (URL_Path ?req)) = [''org'', ''repo'', sample_id]"
    using sample_tokens by (simp add: get_request_def)
  have get: "Method ?req = ''GET''" by (simp add: get_request_def)
  have hdr: "Header_Range ?req = ''bytes='' @ ''1'' @ ''-'' @ ''3''" by (simp add: get_request_def)
  have da: "CHR ''-'' \<notin> set ''1''" and db: "CHR ''-'' \<notin> set ''3''" by simp_all
  have st: "files ?w ?p = Some [10, 20, 30, 40, 50]" by (simp add: stored_def)
  have size: "length [10, 20, 30, 40, 50 :: byte] < 2 ^ 63" by simp
  have ab: "(1 :: 64 word) \<le> 3" by simp
  have bL: "unat (3 :: 64 word) < length [10, 20, 30, 40, 50 :: byte]" by simp
  have opn: "\<not> open_fails ?w ?p" and seek: "\<not> seek_fails ?w ?p" and rd: "read_limit ?w ?p = None"
    by (simp_all add: stored_def quiet_world_def)
  have lim: "send_limit fresh_writer = None" by (simp add: fresh_writer_def)
  show ?thesis
    using ranged_get_returns_requested_bytes
      [OF tok get hdr parse_1 parse_3 da db st size ab bL opn seek rd lim, of sample_deps]
    by (simp add: fresh_writer_def)
qed


section \<open>Upload, then read\<close>

text \<open>
  Claim C6. A body that the admission checks let through (length and checksum match the
  registered manifest) is uploaded with PUT or POST and then read back with a GET
  without a range on the same path: the upload is answered with OK, and the GET sends
  exactly the uploaded bytes and writes no status header. The body was read without
  error, the filesystem takes the write and delivers the file, and the connection takes
  the bytes.
\<close>

theorem upload_then_get_roundtrip:
  assumes tok: "Split (CHR ''/'') (TrimLeft_slash path) = [org, repo, fileId]"
    and put_path: "URL_Path put = path"
    and put_method: "Method put = ''PUT'' \<or> Method put = ''POST''"
    and get_path: "URL_Path get = path"
    and get_method: "Method get = ''GET''"
    and get_range: "Header_Range get = []"
    and hash: "MaybeParse D fileId"
    and reg: "expectedFiles w fileId = Some tfd"
    and len: "\<not> length_mismatch tfd (Body_data put)"
    and sum: "\<not> hash_mismatch D tfd (Body_data put)"
    and body: "\<not> Body_fails put"
    and wr: "write_fault w (filepath_Join [org, repo, fileId]) = None"
    and opn: "\<not> open_fails w (filepath_Join [org, repo, fileId])"
    and rd: "read_limit w (filepath_Join [org, repo, fileId]) = None"
    and lim: "send_limit respWr' = None"
  shows "fst (ServeHTTP D put respWr w) = None \<and>
         fst (snd (ServeHTTP D put respWr w)) = respWr\<lparr>headers := headers respWr @ [StatusOK]\<rparr> \<and>
         fst (ServeHTTP D get respWr' (snd (snd (ServeHTTP D put respWr w)))) = None \<and>
         fst (snd (ServeHTTP D get respWr' (snd (snd (ServeHTTP D put respWr w))))) =
           respWr'\<lparr>sent := sent respWr' @ Body_data put\<rparr>"
proof -
  let ?p = "filepath_Join [org, repo, fileId]"
  let ?w1 = "w\<lparr>files := (files w)(?p \<mapsto> Body_data put),
               trace := trace w @ [EvLookup fileId, EvReadBody, EvWriteFile ?p]\<rparr>"
  have up: "writeTableFile D org repo fileId put w = (StatusOK, ?w1)"
    using hash reg len sum body wr by (rule upload_accepted)
  have not_get: "Method put \<noteq> ''GET''"
    using put_method by auto
  have d1: "dispatch D put org repo fileId respWr w = (StatusOK, respWr, ?w1)"
    using put_method not_get by (auto simp add: dispatch_def up)
  have tok1: "Split (CHR ''/'') (TrimLeft_slash (URL_Path put)) = [org, repo, fileId]"
    using tok by (simp only: put_path)
  have s1: "ServeHTTP D put respWr w = (None, respWr\<lparr>headers := headers respWr @ [StatusOK]\<rparr>, ?w1)"
    unfolding ServeHTTP_three_tokens [OF tok1] d1 by (simp add: WriteHeader_def)
  have f1: "files ?w1 ?p = Some (Body_data put)" by simp
  have o1: "\<not> open_fails ?w1 ?p" using opn by simp
  have r1: "read_limit ?w1 ?p = None" using rd by simp
  have d2: "dispatch D get org repo fileId respWr' ?w1 = readFile org repo fileId respWr' ?w1"
    using get_method get_range by (simp add: dispatch_def Let_def)
  have tok2: "Split (CHR ''/'') (TrimLeft_slash (URL_Path get)) = [org, repo, fileId]"
    using tok by (simp only: get_path)
  have s2: "ServeHTTP D get respWr' ?w1 =
      (None, respWr'\<lparr>sent := sent respWr' @ Body_data put\<rparr>,
       ?w1\<lparr>trace := trace ?w1 @ [EvStat ?p, EvOpen ?p, EvRead ?p, EvClose ?p]\<rparr>)"
    unfolding ServeHTTP_three_tokens [OF tok2] d2 readFile_ok [OF f1 o1 r1 lim] by simp
  show ?thesis
    unfolding s1 by (simp add: s2)
qed

theorem upload_then_get_roundtrip_witness:
  "fst (snd (ServeHTTP sample_deps (upload_request (''/org/repo/'' @ sample_id) [1, 2, 3] False) fresh_writer
      (registered \<lparr>ContentLength = 3, ContentHash = [6]\<rparr>))) =
     \<lparr>headers = [StatusOK], sent = [], send_limit = None\<rparr> \<and>
   fst (snd (ServeHTTP sample_deps (get_request (''/org/repo/'' @ sample_id) []) fresh_writer
      (snd (snd (ServeHTTP sample_deps (upload_request (''/org/repo/'' @ sample_id) [1, 2, 3] False)
         fresh_writer (registered \<lparr>ContentLength = 3, ContentHash = [6]\<rparr>)))))) =
     \<lparr>headers = [], sent = [1, 2, 3], send_limit = None\<rparr>"
proof -
  let ?put = "upload_request (''/org/repo/'' @ sample_id) [1, 2, 3] False"
  let ?get = "get_request (''/org/repo/'' @ sample_id) []"
  let ?tfd = "\<lparr>ContentLength = 3, ContentHash = [6]\<rparr>"
  let ?p = "filepath_Join [''org'', ''repo'', sample_id]"
  have put_path: "URL_Path ?put = ''/org/repo/'' @ sample_id"
    and put_method: "Method ?put = ''PUT'' \<or> Method ?put = ''POST''"
    and body: "\<not> Body_fails ?put"
    by (simp_all add: upload_request_def)
  have get_path: "URL_Path ?get = ''/org/repo/'' @ sample_id"
    and get_method: "Method ?get = ''GET''"
    and get_range: "Header_Range ?get = []"
    by (simp_all add: get_request_def)
  have hash: "MaybeParse sample_deps sample_id"
    by (simp add: sample_deps_def sample_id_def)
  have reg: "expectedFiles (registered ?tfd) sample_id = Some ?tfd"
    by (simp add: registered_def)
  have len: "\<not> length_mismatch ?tfd (Body_data ?put)"
    and sum: "\<not> hash_mismatch sample_deps ?tfd (Body_data ?put)"
    by (simp_all add: length_mismatch_def hash_mismatch_def upload_request_def sample_deps_def)
  have wr: "write_fault (registered ?tfd) ?p = None"
    and opn: "\<not> open_fails (registered ?tfd) ?p"
    and rd: "read_limit (registered ?tfd) ?p = None"
    by (simp_all add: registered_def quiet_world_def)
  have lim: "send_limit fresh_writer = None"
    by (simp add: fresh_writer_def)
  show ?thesis
    using upload_then_get_roundtrip [OF sample_tokens put_path put_method get_path get_method
        get_range hash reg len sum body wr opn rd lim, of fresh_writer]
    by (simp add: fresh_writer_def upload_request_def)
qed


section \<open>Ranges beyond the end of the file\<close>

text \<open>
  A range \<open>bytes=a-b\<close> whose end lies at or beyond the size of the stored file is
  answered with bad-request after the stat alone, as long as \<open>b + 1\<close> is below
  \<open>2 ^ 63\<close>: no file is opened and nothing is sent.
\<close>

lemma range_beyond_size_rejected:
  assumes stored: "files w (filepath_Join [org, repo, fileId]) = Some content"
    and size: "length content < 2 ^ 63"
    and pa: "ParseUint (TrimSpace sa) = Some a" and pb: "ParseUint (TrimSpace sb) = Some b"
    and da: "CHR ''-'' \<notin> set sa" and db: "CHR ''-'' \<notin> set sb"
    and beyond: "length content \<le> unat b"
    and bound: "unat b + 1 < 2 ^ 63"
  shows "readChunk org repo fileId (''bytes='' @ sa @ ''-'' @ sb) writer w =
           (StatusBadRequest, writer,
            w\<lparr>trace := trace w @ [EvStat (filepath_Join [org, repo, fileId])]\<rparr>)"
proof -
  have rng: "offsetAndLenFromRange (''bytes='' @ sa @ ''-'' @ sb) = Inr (a, b - a + 1)"
    using parse_range [OF pa pb da db] by simp
  have e: "a + (b - a + 1) = b + 1" by simp
  have "unat b < unat b + 1" by simp
  then have b63: "unat b < 2 ^ 63" using bound by (rule less_trans)
  have b1: "unat (b + 1) = unat b + 1" using b63 by (rule unat_succ)
  have "unat (b + 1) < 2 ^ 63" using bound by (simp only: b1)
  then have "sint (b + 1) = int (unat (b + 1))" by (rule sint_of_small)
  then have s: "sint (a + (b - a + 1)) = int (unat b + 1)" by (simp only: e b1)
  have chk: "sint (of_nat (length content) :: 64 word) < sint (a + (b - a + 1))"
    unfolding sint_file_size [OF size] s using beyond by linarith
  have chk': "sint (of_nat (length content) :: 64 word) < sint (b + 1)"
    using chk by simp
  show ?thesis
    unfolding readChunk_def rng
    using stored
    by (simp add: readLocalRange_def Let_def os_Stat_def log_event_def chk chk')
qed

lemma parse_max: "ParseUint (TrimSpace ''9223372036854775807'') = Some 9223372036854775807"
  by (simp add: TrimSpace_def strip.simps lead_def space_runes_def ParseUint_def is_digit_def)

lemma range_at_max:
  "offsetAndLenFromRange ''bytes=9223372036854775807-9223372036854775807'' = Inr (9223372036854775807, 1)"
  using parse_range [OF parse_max parse_max] by simp

text \<open>
  Claim C7 says that every ranged read whose range ends at or beyond the size of the
  stored file (\<open>b \<ge> fileSize\<close>) is answered with bad-request before any byte is read.
  The check of \<open>readLocalRange\<close> compares the size with the \<open>int64\<close> sum
  \<open>offset+length\<close>, and for \<open>b = 2 ^ 63 - 1\<close> that sum wraps around to \<open>- 2 ^ 63\<close>: for
  the header \<open>bytes=9223372036854775807-9223372036854775807\<close> and a file of three bytes
  the check passes, the file is opened and positioned, the read fails and the answer is
  internal-server-error.
\<close>

theorem range_end_at_int64_max_not_rejected:
  "readChunk ''org'' ''repo'' sample_id ''bytes=9223372036854775807-9223372036854775807'' fresh_writer
     (stored (filepath_Join [''org'', ''repo'', sample_id]) [1, 2, 3]) =
   (StatusInternalServerError, fresh_writer,
    stored (filepath_Join [''org'', ''repo'', sample_id]) [1, 2, 3]
      \<lparr>trace := [EvStat (filepath_Join [''org'', ''repo'', sample_id]),
                 EvOpen (filepath_Join [''org'', ''repo'', sample_id]),
                 EvSeek (filepath_Join [''org'', ''repo'', sample_id]),
                 EvRead (filepath_Join [''org'', ''repo'', sample_id]),
                 EvClose (filepath_Join [''org'', ''repo'', sample_id])]\<rparr>)"
  unfolding readChunk_def range_at_max
  by (simp add: readLocalRange_def Let_def os_Stat_def os_Open_def file_Seek_def ReadNBytes_def
      readable_def file_Close_def log_event_def stored_def quiet_world_def)


section \<open>Ranges whose end is before their start\<close>

lemma parse_5: "ParseUint (TrimSpace ''5'') = Some 5"
  by (simp add: TrimSpace_def strip.simps lead_def space_runes_def ParseUint_def is_digit_def)

lemma range_order_is_not_checked:
  assumes "ParseUint (TrimSpace sa) = Some a" and "ParseUint (TrimSpace sb) = Some b"
    and "CHR ''-'' \<notin> set sa" and "CHR ''-'' \<notin> set sb"
    and "b < a"
  shows "\<exists>offset len. offsetAndLenFromRange (''bytes='' @ sa @ ''-'' @ sb) = Inr (offset, len)"
  using parse_range [OF assms(1-4)] by simp

text \<open>
  Claim C8 says that a range whose numbers parse but whose end is smaller than its
  start is a parse error. \<open>offsetAndLenFromRange\<close> does not compare the two numbers: for
  \<open>bytes=5-3\<close> it returns no error, the offset 5 and the length \<open>int64(3 - 5) + 1\<close>,
  which is \<open>-1\<close>.
\<close>

theorem reversed_range_not_rejected:
  "offsetAndLenFromRange ''bytes=5-3'' = Inr (5, - 1)"
  using parse_range [OF parse_5 parse_3] by simp

section \<open>An upload whose body cannot be read\<close>

lemma failed_body_read_unchecked_manifest:
  "writeTableFile sample_deps ''org'' ''repo'' sample_id
      (upload_request (''/org/repo/'' @ sample_id) [1, 2, 3] True)
      (registered \<lparr>ContentLength = 0, ContentHash = []\<rparr>) =
     (StatusInternalServerError,
      registered \<lparr>ContentLength = 0, ContentHash = []\<rparr>
        \<lparr>trace := [EvLookup sample_id, EvReadBody]\<rparr>)"
  by (simp add: writeTableFile_def registry_lookup_def io_ReadAll_def log_event_def
      registered_def quiet_world_def upload_request_def sample_deps_def sample_id_def)

lemma failed_body_read_with_mismatch:
  assumes "MaybeParse D fileId" and "expectedFiles w fileId = Some tfd"
    and "length (Body_data req) < 2 ^ 63" and "Body_fails req"
    and "length_mismatch tfd (Body_data req) \<or> hash_mismatch D tfd (Body_data req)"
  shows "fst (writeTableFile D org repo fileId req w) = StatusBadRequest"
  using upload_rejected [OF assms(1,2,3,5)] by simp

text \<open>
  Claim C9 says that an upload whose body read fails is answered with internal-error
  and never with an admission rejection. \<open>writeTableFile\<close> looks at the error of
  \<open>io.ReadAll\<close> only after the length and checksum checks, which run on the bytes read
  so far: with a manifest that expects 10 bytes and a body read that fails after 3
  bytes the answer is bad-request.
\<close>

theorem failed_body_read_answered_as_mismatch:
  "writeTableFile sample_deps ''org'' ''repo'' sample_id
      (upload_request (''/org/repo/'' @ sample_id) [1, 2, 3] True)
      (registered \<lparr>ContentLength = 10, ContentHash = []\<rparr>) =
     (StatusBadRequest,
      registered \<lparr>ContentLength = 10, ContentHash = []\<rparr>
        \<lparr>trace := [EvLookup sample_id, EvReadBody]\<rparr>)"
  by (simp add: writeTableFile_def registry_lookup_def io_ReadAll_def log_event_def
      registered_def quiet_world_def upload_request_def sample_deps_def sample_id_def)

section \<open>Paths that do not have three tokens\<close>

lemma tokens_two: "Split (CHR ''/'') (TrimLeft_slash ''/orgOnly/repoOnly'') = [''orgOnly'', ''repoOnly'']"
  by (simp add: TrimLeft_slash_def)

lemma tokens_four: "Split (CHR ''/'') (TrimLeft_slash ''/a/b/c/d'') = [''a'', ''b'', ''c'', ''d'']"
  by (simp add: TrimLeft_slash_def)

lemma join_abc: "filepath_Join [''a'', ''b'', ''c''] = ''a/b/c''"
  by (simp add: filepath_Join_def Clean_def clean_elem_def)

lemma wrong_token_count_get:
  "ServeHTTP D (get_request ''/orgOnly/repoOnly'' []) fresh_writer (stored ''a/b/c'' [1, 2, 3]) =
     (Some IndexOutOfRange, fresh_writer\<lparr>headers := [StatusNotFound]\<rparr>, stored ''a/b/c'' [1, 2, 3]) \<and>
   ServeHTTP D (get_request ''/a/b/c/d'' []) fresh_writer (stored ''a/b/c'' [1, 2, 3]) =
     (None, fresh_writer\<lparr>headers := [StatusNotFound], sent := [1, 2, 3]\<rparr>,
      stored ''a/b/c'' [1, 2, 3]
        \<lparr>trace := [EvStat ''a/b/c'', EvOpen ''a/b/c'', EvRead ''a/b/c'', EvClose ''a/b/c'']\<rparr>) \<and>
   ServeHTTP D (get_request ''/a/b/c/d'' []) fresh_writer quiet_world =
     (None, fresh_writer\<lparr>headers := [StatusNotFound, StatusNotFound]\<rparr>,
      quiet_world\<lparr>trace := [EvStat ''a/b/c'']\<rparr>)"
  by (simp add: ServeHTTP_def Let_def get_request_def tokens_two tokens_four WriteHeader_def
      fresh_writer_def dispatch_def readFile_def join_abc os_Stat_def os_Open_def io_Copy_def
      rw_Write_def readable_def read_breaks_def file_Close_def log_event_def stored_def
      quiet_world_def)

lemma tokens_extra:
  "Split (CHR ''/'') (TrimLeft_slash (''/org/repo/'' @ sample_id @ ''/extra'')) =
     [''org'', ''repo'', sample_id, ''extra'']"
  by (simp add: TrimLeft_slash_def sample_id_def)

lemma join_sample: "filepath_Join [''org'', ''repo'', sample_id] = ''org/repo/'' @ sample_id"
  by (simp add: filepath_Join_def Clean_def clean_elem_def sample_id_def)

lemma four_tokens_upload:
  "ServeHTTP sample_deps (upload_request (''/org/repo/'' @ sample_id @ ''/extra'') [1, 2, 3] False)
      fresh_writer (registered \<lparr>ContentLength = 3, ContentHash = [6]\<rparr>) =
     (None, fresh_writer\<lparr>headers := [StatusNotFound, StatusOK]\<rparr>,
      registered \<lparr>ContentLength = 3, ContentHash = [6]\<rparr>
        \<lparr>files := [''org/repo/'' @ sample_id \<mapsto> [1, 2, 3]],
          trace := [EvLookup sample_id, EvReadBody, EvWriteFile (''org/repo/'' @ sample_id)]\<rparr>)"
proof -
  define tfd where "tfd = \<lparr>ContentLength = 3, ContentHash = [6 :: byte]\<rparr>"
  define req where "req = upload_request (''/org/repo/'' @ sample_id @ ''/extra'') [1, 2, 3] False"
  define w where "w = registered tfd"
  have up: "writeTableFile sample_deps ''org'' ''repo'' sample_id req w =
           (StatusOK,
            w\<lparr>files := (files w)(filepath_Join [''org'', ''repo'', sample_id] \<mapsto> Body_data req),
              trace := trace w @ [EvLookup sample_id, EvReadBody,
                                  EvWriteFile (filepath_Join [''org'', ''repo'', sample_id])]\<rparr>)"
  proof (rule upload_accepted [where tfd = tfd])
    show "MaybeParse sample_deps sample_id"
      by (simp add: sample_deps_def sample_id_def)
    show "expectedFiles w sample_id = Some tfd"
      by (simp add: w_def registered_def)
    show "\<not> length_mismatch tfd (Body_data req)"
      by (simp add: length_mismatch_def req_def tfd_def upload_request_def)
    show "\<not> hash_mismatch sample_deps tfd (Body_data req)"
      by (simp add: hash_mismatch_def req_def tfd_def upload_request_def sample_deps_def)
    show "\<not> Body_fails req"
      by (simp add: req_def upload_request_def)
    show "write_fault w (filepath_Join [''org'', ''repo'', sample_id]) = None"
      by (simp add: w_def registered_def quiet_world_def)
  qed
  have tok: "Split (CHR ''/'') (TrimLeft_slash (URL_Path req)) = [''org'', ''repo'', sample_id, ''extra'']"
    using tokens_extra by (simp add: req_def upload_request_def)
  have m: "Method req = ''PUT''" by (simp add: req_def upload_request_def)
  have b: "Body_data req = [1, 2, 3]" by (simp add: req_def upload_request_def)
  have "ServeHTTP sample_deps req fresh_writer w =
     (None, fresh_writer\<lparr>headers := [StatusNotFound, StatusOK]\<rparr>,
      w\<lparr>files := [''org/repo/'' @ sample_id \<mapsto> [1, 2, 3]],
        trace := [EvLookup sample_id, EvReadBody, EvWriteFile (''org/repo/'' @ sample_id)]\<rparr>)"
    by (simp add: ServeHTTP_def Let_def tok dispatch_def m up b WriteHeader_def fresh_writer_def
        join_sample)
      (simp add: w_def registered_def quiet_world_def)
  then show ?thesis
    by (simp only: req_def w_def tfd_def)
qed


text \<open>
  Claim C1 says that a request whose path does not split into exactly three tokens is
  answered with not-found alone, without filesystem or registry access and without
  method dispatch. \<open>ServeHTTP\<close> writes the not-found header and goes on: with two
  tokens it panics at \<open>tokens[2]\<close>; with four tokens it dispatches on the first three,
  so a GET for \<open>/a/b/c/d\<close> stats, opens and sends the file \<open>a/b/c\<close> after the not-found
  header, and writes a second not-found header when that file does not exist; a PUT
  with a fourth token after a registered file id looks the id up and writes the file.
\<close>

theorem wrong_token_count_falls_through:
  "ServeHTTP D (get_request ''/orgOnly/repoOnly'' []) fresh_writer (stored ''a/b/c'' [1, 2, 3]) =
     (Some IndexOutOfRange, fresh_writer\<lparr>headers := [StatusNotFound]\<rparr>, stored ''a/b/c'' [1, 2, 3]) \<and>
   ServeHTTP D (get_request ''/a/b/c/d'' []) fresh_writer (stored ''a/b/c'' [1, 2, 3]) =
     (None, fresh_writer\<lparr>headers := [StatusNotFound], sent := [1, 2, 3]\<rparr>,
      stored ''a/b/c'' [1, 2, 3]
        \<lparr>trace := [EvStat ''a/b/c'', EvOpen ''a/b/c'', EvRead ''a/b/c'', EvClose ''a/b/c'']\<rparr>) \<and>
   ServeHTTP D (get_request ''/a/b/c/d'' []) fresh_writer quiet_world =
     (None, fresh_writer\<lparr>headers := [StatusNotFound, StatusNotFound]\<rparr>,
      quiet_world\<lparr>trace := [EvStat ''a/b/c'']\<rparr>) \<and>
   ServeHTTP sample_deps (upload_request (''/org/repo/'' @ sample_id @ ''/extra'') [1, 2, 3] False)
      fresh_writer (registered \<lparr>ContentLength = 3, ContentHash = [6]\<rparr>) =
     (None, fresh_writer\<lparr>headers := [StatusNotFound, StatusOK]\<rparr>,
      registered \<lparr>ContentLength = 3, ContentHash = [6]\<rparr>
        \<lparr>files := [''org/repo/'' @ sample_id \<mapsto> [1, 2, 3]],
          trace := [EvLookup sample_id, EvReadBody, EvWriteFile (''org/repo/'' @ sample_id)]\<rparr>)"
  using wrong_token_count_get [of D] four_tokens_upload
  by (simp only: simp_thms)

section \<open>File ids that do not parse as a hash\<close>

lemma tokens_bad_hash:
  "Split (CHR ''/'') (TrimLeft_slash ''/org/repo/not-a-hash'') = [''org'', ''repo'', ''not-a-hash'']"
  by (simp add: TrimLeft_slash_def)

lemma join_bad_hash: "filepath_Join [''org'', ''repo'', ''not-a-hash''] = ''org/repo/not-a-hash''"
  by (simp add: filepath_Join_def Clean_def clean_elem_def)

lemma get_never_parses_the_hash:
  assumes "Method req = ''GET''"
  shows "dispatch D req org repo hashStr respWr w = dispatch D' req org repo hashStr respWr w"
  using assms by (simp add: dispatch_def)

text \<open>
  Claim C2 says that for reads as well as writes a file id that does not parse as a
  hash ends the request before any path resolution or filesystem access. Only
  \<open>writeTableFile\<close> calls \<open>hash.MaybeParse\<close>: an upload to \<open>/org/repo/not-a-hash\<close> is
  answered with bad-request without any operation, but a GET for the same path stats
  the file \<open>org/repo/not-a-hash\<close>, and opens, reads and sends it when it exists.
\<close>

theorem get_with_unparsable_hash_reads_file:
  "\<not> MaybeParse sample_deps ''not-a-hash'' \<and>
   ServeHTTP sample_deps (get_request ''/org/repo/not-a-hash'' []) fresh_writer
      (stored ''org/repo/not-a-hash'' [1, 2, 3]) =
     (None, fresh_writer\<lparr>sent := [1, 2, 3]\<rparr>,
      stored ''org/repo/not-a-hash'' [1, 2, 3]
        \<lparr>trace := [EvStat ''org/repo/not-a-hash'', EvOpen ''org/repo/not-a-hash'',
                   EvRead ''org/repo/not-a-hash'', EvClose ''org/repo/not-a-hash'']\<rparr>) \<and>
   ServeHTTP sample_deps (get_request ''/org/repo/not-a-hash'' []) fresh_writer quiet_world =
     (None, fresh_writer\<lparr>headers := [StatusNotFound]\<rparr>,
      quiet_world\<lparr>trace := [EvStat ''org/repo/not-a-hash'']\<rparr>) \<and>
   ServeHTTP sample_deps (upload_request ''/org/repo/not-a-hash'' [1, 2, 3] False) fresh_writer quiet_world =
     (None, fresh_writer\<lparr>headers := [StatusBadRequest]\<rparr>, quiet_world)"
  by (simp add: ServeHTTP_def Let_def get_request_def upload_request_def tokens_bad_hash
      WriteHeader_def fresh_writer_def dispatch_def readFile_def join_bad_hash os_Stat_def
      os_Open_def io_Copy_def rw_Write_def readable_def read_breaks_def file_Close_def
      log_event_def stored_def quiet_world_def writeTableFile_def sample_deps_def)


section \<open>Storage paths outside the root\<close>

lemma tokens_dotdot:
  assumes "CHR ''/'' \<notin> set h"
  shows "Split (CHR ''/'') (TrimLeft_slash (''/../../'' @ h)) = [''..'', ''..'', h]"
  using assms by (simp add: TrimLeft_slash_def Split_no_sep)

lemma join_dotdot:
  assumes "CHR ''/'' \<notin> set h" and "h \<noteq> []" and "h \<noteq> ''.''" and "h \<noteq> ''..''"
  shows "filepath_Join [''..'', ''..'', h] = ''../../'' @ h"
  using assms by (simp add: filepath_Join_def Clean_def clean_elem_def Split_no_sep)

text \<open>
  Claim C10. The storage path is \<open>filepath.Join(org, repo, fileId)\<close> of the three
  tokens as they come, and the organization and the repository are not checked. For
  every file id \<open>h\<close> that is a plain name, the path \<open>/../../h\<close> has the three tokens
  \<open>..\<close>, \<open>..\<close> and \<open>h\<close>, its storage path is \<open>../../h\<close>, which lies outside the working
  directory of the server, a GET for it sends the file stored there, and an admitted
  upload writes the file there.
\<close>

theorem storage_path_escapes_root:
  assumes plain: "CHR ''/'' \<notin> set h" and ne: "h \<noteq> []" and nd: "h \<noteq> ''.''" and ndd: "h \<noteq> ''..''"
  shows "Split (CHR ''/'') (TrimLeft_slash (''/../../'' @ h)) = [''..'', ''..'', h] \<and>
         filepath_Join [''..'', ''..'', h] = ''../../'' @ h \<and>
         outside_root (filepath_Join [''..'', ''..'', h]) \<and>
         (files w (''../../'' @ h) = Some content \<and> \<not> open_fails w (''../../'' @ h) \<and>
          read_limit w (''../../'' @ h) = None \<and> send_limit respWr = None \<longrightarrow>
            fst (snd (ServeHTTP D (get_request (''/../../'' @ h) []) respWr w)) =
              respWr\<lparr>sent := sent respWr @ content\<rparr>) \<and>
         (MaybeParse D h \<and> expectedFiles w h = Some tfd \<and> \<not> length_mismatch tfd body \<and>
          \<not> hash_mismatch D tfd body \<and> write_fault w (''../../'' @ h) = None \<longrightarrow>
            files (snd (snd (ServeHTTP D (upload_request (''/../../'' @ h) body False) respWr w)))
              (''../../'' @ h) = Some body)"
proof -
  note tok = tokens_dotdot [OF plain]
  note j = join_dotdot [OF plain ne nd ndd]
  have out: "outside_root (filepath_Join [''..'', ''..'', h])"
    unfolding j by (simp add: outside_root_def)
  have rd: "fst (snd (ServeHTTP D (get_request (''/../../'' @ h) []) respWr w)) =
              respWr\<lparr>sent := sent respWr @ content\<rparr>"
    if "files w (''../../'' @ h) = Some content" "\<not> open_fails w (''../../'' @ h)"
       "read_limit w (''../../'' @ h) = None" "send_limit respWr = None"
  proof -
    have t: "Split (CHR ''/'') (TrimLeft_slash (URL_Path (get_request (''/../../'' @ h) []))) = [''..'', ''..'', h]"
      using tok by (simp add: get_request_def)
    have d: "dispatch D (get_request (''/../../'' @ h) []) ''..'' ''..'' h respWr w =
             readFile ''..'' ''..'' h respWr w"
      by (simp add: dispatch_def get_request_def)
    have r: "readFile ''..'' ''..'' h respWr w =
       (- 1, respWr\<lparr>sent := sent respWr @ content\<rparr>,
        w\<lparr>trace := trace w @
           [EvStat (filepath_Join [''..'', ''..'', h]), EvOpen (filepath_Join [''..'', ''..'', h]),
            EvRead (filepath_Join [''..'', ''..'', h]), EvClose (filepath_Join [''..'', ''..'', h])]\<rparr>)"
    proof (rule readFile_ok)
      show "files w (filepath_Join [''..'', ''..'', h]) = Some content" using that(1) by (simp add: j)
      show "\<not> open_fails w (filepath_Join [''..'', ''..'', h])" using that(2) by (simp add: j)
      show "read_limit w (filepath_Join [''..'', ''..'', h]) = None" using that(3) by (simp add: j)
      show "send_limit respWr = None" by (rule that(4))
    qed
    show ?thesis
      unfolding ServeHTTP_three_tokens [OF t] d r by simp
  qed
  have wr: "files (snd (snd (ServeHTTP D (upload_request (''/../../'' @ h) body False) respWr w)))
              (''../../'' @ h) = Some body"
    if "MaybeParse D h" "expectedFiles w h = Some tfd" "\<not> length_mismatch tfd body"
       "\<not> hash_mismatch D tfd body" "write_fault w (''../../'' @ h) = None"
  proof -
    let ?req = "upload_request (''/../../'' @ h) body False"
    have t: "Split (CHR ''/'') (TrimLeft_slash (URL_Path ?req)) = [''..'', ''..'', h]"
      using tok by (simp add: upload_request_def)
    have b: "Body_data ?req = body" "\<not> Body_fails ?req" by (simp_all add: upload_request_def)
    have u: "writeTableFile D ''..'' ''..'' h ?req w =
           (StatusOK,
            w\<lparr>files := (files w)(filepath_Join [''..'', ''..'', h] \<mapsto> Body_data ?req),
              trace := trace w @ [EvLookup h, EvReadBody,
                                  EvWriteFile (filepath_Join [''..'', ''..'', h])]\<rparr>)"
    proof (rule upload_accepted)
      show "MaybeParse D h" by (rule that(1))
      show "expectedFiles w h = Some tfd" by (rule that(2))
      show "\<not> length_mismatch tfd (Body_data ?req)" using that(3) by (simp add: upload_request_def)
      show "\<not> hash_mismatch D tfd (Body_data ?req)" using that(4) by (simp add: upload_request_def)
      show "\<not> Body_fails ?req" by (rule b(2))
      show "write_fault w (filepath_Join [''..'', ''..'', h]) = None" using that(5) by (simp add: j)
    qed
    have d: "dispatch D ?req ''..'' ''..'' h respWr w =
             (case writeTableFile D ''..'' ''..'' h ?req w of (code, w') \<Rightarrow> (code, respWr, w'))"
      by (simp add: dispatch_def upload_request_def)
    show ?thesis
      unfolding ServeHTTP_three_tokens [OF t] d u by (simp add: j upload_request_def)
  qed
  show ?thesis
    using tok j out rd wr by blast
qed


theorem storage_path_escapes_root_witness:
  "Split (CHR ''/'') (TrimLeft_slash (''/../../'' @ sample_id)) = [''..'', ''..'', sample_id] \<and>
   filepath_Join [''..'', ''..'', sample_id] = ''../../'' @ sample_id \<and>
   outside_root (filepath_Join [''..'', ''..'', sample_id]) \<and>
   fst (snd (ServeHTTP sample_deps (get_request (''/../../'' @ sample_id) []) fresh_writer
      (stored (''../../'' @ sample_id) [1, 2, 3]))) =
     \<lparr>headers = [], sent = [1, 2, 3], send_limit = None\<rparr> \<and>
   files (snd (snd (ServeHTTP sample_deps (upload_request (''/../../'' @ sample_id) [1, 2, 3] False)
      fresh_writer (registered \<lparr>ContentLength = 3, ContentHash = [6]\<rparr>))))
     (''../../'' @ sample_id) = Some [1, 2, 3]"
proof -
  let ?tfd = "\<lparr>ContentLength = 3, ContentHash = [6]\<rparr>"
  have plain: "CHR ''/'' \<notin> set sample_id" and ne: "sample_id \<noteq> []"
    and nd: "sample_id \<noteq> ''.''" and ndd: "sample_id \<noteq> ''..''"
    by (simp_all add: sample_id_def)
  have rd: "files (stored (''../../'' @ sample_id) [1, 2, 3]) (''../../'' @ sample_id) = Some [1, 2, 3]"
    "\<not> open_fails (stored (''../../'' @ sample_id) [1, 2, 3]) (''../../'' @ sample_id)"
    "read_limit (stored (''../../'' @ sample_id) [1, 2, 3]) (''../../'' @ sample_id) = None"
    "send_limit fresh_writer = None"
    by (simp_all add: stored_def quiet_world_def fresh_writer_def)
  have up: "MaybeParse sample_deps sample_id"
    "expectedFiles (registered ?tfd) sample_id = Some ?tfd"
    "\<not> length_mismatch ?tfd [1, 2, 3]"
    "\<not> hash_mismatch sample_deps ?tfd [1, 2, 3]"
    "write_fault (registered ?tfd) (''../../'' @ sample_id) = None"
    by (simp_all add: sample_deps_def sample_id_def registered_def quiet_world_def
        length_mismatch_def hash_mismatch_def)
  show ?thesis
    using rd up
      storage_path_escapes_root [OF plain ne nd ndd,
        of "stored (''../../'' @ sample_id) [1, 2, 3]" "[1, 2, 3]" fresh_writer sample_deps ?tfd "[1, 2, 3]"]
      storage_path_escapes_root [OF plain ne nd ndd,
        of "registered ?tfd" "[1, 2, 3]" fresh_writer sample_deps ?tfd "[1, 2, 3]"]
    by (simp add: fresh_writer_def)
qed

end
